theory Spec2Isabelle
  imports Main
begin

section \<open>LearnTrack: course schedule status and the daily reminder job\<close>

text \<open>
  A shallow embedding of the decision core of LearnTrack: the data classes of
  \<^verbatim>\<open>models/course_models.py\<close>, the status calculation of
  \<^verbatim>\<open>services/status_service.py\<close>, the template selection of
  \<^verbatim>\<open>services/email_templates.py\<close>, the email log of
  \<^verbatim>\<open>services/email_service.py\<close> and the batch job of
  \<^verbatim>\<open>jobs/daily_reminder_job.py\<close>.

  Python exceptions are values: a function that can raise returns
  \<open>py_error + 'a\<close>, with \<open>Inl\<close> the exception that leaves the function.
\<close>

subsection \<open>Python values used by the code\<close>

datatype py_error = AttributeError | FileNotFoundError | JSONDecodeError | OSError

text \<open>
  A naive \<^verbatim>\<open>datetime\<close> is a point on the proleptic Gregorian time line; it is
  kept as the number of microseconds since 0001-01-01T00:00:00. The difference of
  two datetimes is a \<^verbatim>\<open>timedelta\<close>, which Python normalises so that its
  \<^verbatim>\<open>days\<close> attribute is the floor of the difference measured in days.
\<close>

type_synonym datetime = int

definition us_per_day :: int where
  "us_per_day = 86400000000"

definition timedelta_days :: "datetime \<Rightarrow> datetime \<Rightarrow> int" where
  "timedelta_days a b = (a - b) div us_per_day"

definition plus_days :: "datetime \<Rightarrow> int \<Rightarrow> datetime" where
  "plus_days t n = t + n * us_per_day"

text \<open>The calendar arithmetic of the standard library, for building and printing dates.\<close>

definition is_leap :: "int \<Rightarrow> bool" where
  "is_leap y = (y mod 4 = 0 \<and> (y mod 100 \<noteq> 0 \<or> y mod 400 = 0))"

definition days_before_year :: "int \<Rightarrow> int" where
  "days_before_year y = (let p = y - 1 in p * 365 + p div 4 - p div 100 + p div 400)"

definition DAYS_IN_MONTH :: "int list" where
  "DAYS_IN_MONTH = [31, 28, 31, 30, 31, 30, 31, 31, 30, 31, 30, 31]"

definition DAYS_BEFORE_MONTH :: "int list" where
  "DAYS_BEFORE_MONTH = [0, 31, 59, 90, 120, 151, 181, 212, 243, 273, 304, 334]"

definition days_before_month :: "int \<Rightarrow> int \<Rightarrow> int" where
  "days_before_month y m =
     DAYS_BEFORE_MONTH ! nat (m - 1) + (if 2 < m \<and> is_leap y then 1 else 0)"

definition ymd2ord :: "int \<Rightarrow> int \<Rightarrow> int \<Rightarrow> int" where
  "ymd2ord y m d = days_before_year y + days_before_month y m + d"

text \<open>
  \<open>mk_datetime y m d h mi s\<close> is \<^verbatim>\<open>datetime(y, m, d, h, mi, s)\<close> for arguments in
  the ranges the constructor accepts (month 1 to 12, day within the month, and so on).
\<close>

definition mk_datetime :: "int \<Rightarrow> int \<Rightarrow> int \<Rightarrow> int \<Rightarrow> int \<Rightarrow> int \<Rightarrow> datetime" where
  "mk_datetime y m d h mi s =
     (((ymd2ord y m d - 1) * 24 + h) * 60 + mi) * 60000000 + s * 1000000"

definition ord2ymd :: "int \<Rightarrow> int \<times> int \<times> int" where
  "ord2ymd ordinal =
     (let n = ordinal - 1;
          n400 = n div 146097; n = n mod 146097;
          n100 = n div 36524; n = n mod 36524;
          n4 = n div 1461; n = n mod 1461;
          n1 = n div 365; n = n mod 365;
          year = n400 * 400 + 1 + n100 * 100 + n4 * 4 + n1
      in if n1 = 4 \<or> n100 = 4 then (year - 1, 12, 31)
         else
           let leapyear = (n1 = 3 \<and> (n4 \<noteq> 24 \<or> n100 = 3));
               month = (n + 50) div 32;
               preceding = DAYS_BEFORE_MONTH ! nat (month - 1)
                             + (if 2 < month \<and> leapyear then 1 else 0)
           in if n < preceding
              then let month' = month - 1;
                       preceding' = preceding
                         - (DAYS_IN_MONTH ! nat (month' - 1)
                            + (if month' = 2 \<and> leapyear then 1 else 0))
                   in (year, month', n - preceding' + 1)
              else (year, month, n - preceding + 1))"

text \<open>Decimal printing, as \<^verbatim>\<open>str\<close> and f-strings do for an \<^verbatim>\<open>int\<close>.\<close>

fun digits_of :: "nat \<Rightarrow> string" where
  "digits_of n =
     (if n < 10 then [''0123456789'' ! n]
      else digits_of (n div 10) @ [''0123456789'' ! (n mod 10)])"

declare digits_of.simps [simp del]

definition str_int :: "int \<Rightarrow> string" where
  "str_int i = (if i < 0 then ''-'' @ digits_of (nat (- i)) else digits_of (nat i))"

definition zero_pad :: "nat \<Rightarrow> string \<Rightarrow> string" where
  "zero_pad w s = replicate (w - length s) (CHR ''0'') @ s"

text \<open>
  \<^verbatim>\<open>strftime('%Y-%m-%d')\<close>. Month and day are padded to two digits; the year is
  printed as it is, without padding, as CPython does on glibc (a year below 1000 has
  fewer than four digits there).
\<close>

definition strftime_ymd :: "datetime \<Rightarrow> string" where
  "strftime_ymd t =
     (case ord2ymd (t div us_per_day + 1) of
        (y, m, d) \<Rightarrow>
          str_int y @ ''-'' @ zero_pad 2 (str_int m) @ ''-'' @ zero_pad 2 (str_int d))"

subsection \<open>The data classes (\<^verbatim>\<open>models/course_models.py\<close>)\<close>

text \<open>
  The two enumerations both have a member \<^verbatim>\<open>COMPLETED\<close>, and the data classes
  share attribute names; constructors and fields carry a prefix where they would clash:
  \<open>E_\<close> for \<^verbatim>\<open>EnrollmentStatus\<close>, \<open>S_\<close> for \<^verbatim>\<open>ScheduleStatus\<close>,
  \<open>sched_\<close> for a \<^verbatim>\<open>CourseSchedule\<close> and \<open>css_\<close> for a
  \<^verbatim>\<open>CourseScheduleStatus\<close>.
\<close>

datatype EnrollmentStatus = E_ENROLLED | E_IN_PROGRESS | E_COMPLETED

datatype ScheduleStatus = S_STARTED | S_NEEDS_REMINDER | S_PROGRESSED | S_COMPLETED

record CourseEnrollment =
  course_id :: string
  status :: EnrollmentStatus
  enrollment_date :: datetime
  start_date :: "datetime option"
  completion_date :: "datetime option"

record CourseSchedule =
  sched_course_id :: string
  days_to_complete :: int
  batch :: int

record CourseScheduleStatus =
  css_course_id :: string
  css_status :: ScheduleStatus
  enrollment :: "CourseEnrollment option"
  schedule :: CourseSchedule
  days_overdue :: int
  message :: string

record User =
  user_id :: string
  name :: string
  email :: string
  manager_email :: string
  hire_date :: datetime

definition is_completed :: "CourseEnrollment \<Rightarrow> bool" where
  "is_completed e = (status e = E_COMPLETED)"

definition is_started :: "CourseEnrollment \<Rightarrow> bool" where
  "is_started e = (start_date e \<noteq> None)"

definition days_since_enrollment :: "CourseEnrollment \<Rightarrow> datetime \<Rightarrow> int" where
  "days_since_enrollment e current_date = timedelta_days current_date (enrollment_date e)"

definition needs_reminder :: "CourseScheduleStatus \<Rightarrow> bool" where
  "needs_reminder s = (css_status s = S_NEEDS_REMINDER)"

subsection \<open>The status service (\<^verbatim>\<open>services/status_service.py\<close>)\<close>

text \<open>
  The service object holds the schedules keyed by course id. The dictionary
  comprehension of the constructor lets a later schedule replace an earlier one with
  the same course id.
\<close>

record ScheduleStatusService =
  schedules_map :: "string \<rightharpoonup> CourseSchedule"

definition new_service :: "CourseSchedule list \<Rightarrow> ScheduleStatusService" where
  "new_service schedules =
     \<lparr>schedules_map = fold (\<lambda>s m. m(sched_course_id s \<mapsto> s)) schedules Map.empty\<rparr>"

text \<open>
  \<^verbatim>\<open>calculate_status\<close> is a method: it receives the service object, although its body
  never touches it. The only expression of the body that can raise is
  \<^verbatim>\<open>enrollment.completion_date.strftime(...)\<close> in the first case, an
  \<^verbatim>\<open>AttributeError\<close> when the completion date is \<^verbatim>\<open>None\<close>.
\<close>

definition calculate_status ::
  "ScheduleStatusService \<Rightarrow> CourseEnrollment \<Rightarrow> CourseSchedule \<Rightarrow> datetime
     \<Rightarrow> py_error + CourseScheduleStatus" where
  "calculate_status self e sch current_date =
     (let dse = days_since_enrollment e current_date;
          overdue = max 0 (dse - days_to_complete sch)
      in if is_completed e then
           (case completion_date e of
              None \<Rightarrow> Inl AttributeError
            | Some cd \<Rightarrow>
                Inr \<lparr>css_course_id = course_id e, css_status = S_COMPLETED,
                     enrollment = Some e, schedule = sch, days_overdue = 0,
                     message = ''Completed on '' @ strftime_ymd cd\<rparr>)
         else if days_to_complete sch < dse then
           (let status_detail =
                  (if \<not> is_started e then ''Not started'' else ''In progress but overdue'')
            in Inr \<lparr>css_course_id = course_id e, css_status = S_NEEDS_REMINDER,
                    enrollment = Some e, schedule = sch, days_overdue = overdue,
                    message = status_detail @ '' - '' @ str_int overdue @ '' days overdue''\<rparr>)
         else if status e = E_IN_PROGRESS then
           (let days_remaining = days_to_complete sch - dse
            in Inr \<lparr>css_course_id = course_id e, css_status = S_PROGRESSED,
                    enrollment = Some e, schedule = sch, days_overdue = 0,
                    message = ''In progress - '' @ str_int days_remaining
                                @ '' days remaining''\<rparr>)
         else if is_started e then
           (let days_remaining = days_to_complete sch - dse
            in Inr \<lparr>css_course_id = course_id e, css_status = S_STARTED,
                    enrollment = Some e, schedule = sch, days_overdue = 0,
                    message = ''Started - '' @ str_int days_remaining
                                @ '' days remaining''\<rparr>)
         else
           (let days_remaining = days_to_complete sch - dse
            in Inr \<lparr>css_course_id = course_id e, css_status = S_STARTED,
                    enrollment = Some e, schedule = sch, days_overdue = 0,
                    message = ''Enrolled - '' @ str_int days_remaining
                                @ '' days to start and complete''\<rparr>))"

text \<open>
  \<^verbatim>\<open>calculate_user_status\<close>: the loop over the enrollments, with the list
  \<^verbatim>\<open>statuses\<close> it appends to. An enrollment whose course has no schedule is
  skipped by \<^verbatim>\<open>continue\<close>; an exception of \<^verbatim>\<open>calculate_status\<close> leaves the loop.
\<close>

fun user_status_loop ::
  "ScheduleStatusService \<Rightarrow> CourseEnrollment list \<Rightarrow> datetime \<Rightarrow> CourseScheduleStatus list
     \<Rightarrow> py_error + CourseScheduleStatus list" where
  "user_status_loop self [] current_date statuses = Inr statuses"
| "user_status_loop self (e # es) current_date statuses =
     (case schedules_map self (course_id e) of
        None \<Rightarrow> user_status_loop self es current_date statuses
      | Some sch \<Rightarrow>
          (case calculate_status self e sch current_date of
             Inl err \<Rightarrow> Inl err
           | Inr st \<Rightarrow> user_status_loop self es current_date (statuses @ [st])))"

definition calculate_user_status ::
  "ScheduleStatusService \<Rightarrow> CourseEnrollment list \<Rightarrow> datetime
     \<Rightarrow> py_error + CourseScheduleStatus list" where
  "calculate_user_status self enrollments current_date =
     user_status_loop self enrollments current_date []"

definition get_courses_needing_reminder ::
  "ScheduleStatusService \<Rightarrow> CourseEnrollment list \<Rightarrow> datetime
     \<Rightarrow> py_error + CourseScheduleStatus list" where
  "get_courses_needing_reminder self enrollments current_date =
     (case calculate_user_status self enrollments current_date of
        Inl err \<Rightarrow> Inl err
      | Inr all_statuses \<Rightarrow> Inr (filter needs_reminder all_statuses))"

text \<open>
  The summary dictionary always has the same five keys, so it is a record:
  \<open>sum_total_courses\<close> is the entry \<^verbatim>\<open>"total_courses"\<close>, \<open>sum_completed\<close> is
  \<^verbatim>\<open>"completed"\<close>, \<open>sum_in_progress\<close> is \<^verbatim>\<open>"in_progress"\<close>,
  \<open>sum_needs_reminder\<close> is \<^verbatim>\<open>"needs_reminder"\<close> and \<open>sum_on_track\<close> is
  \<^verbatim>\<open>"on_track"\<close>.
\<close>

record UserSummary =
  sum_total_courses :: int
  sum_completed :: int
  sum_in_progress :: int
  sum_needs_reminder :: int
  sum_on_track :: int

definition summary_step :: "CourseScheduleStatus \<Rightarrow> UserSummary \<Rightarrow> UserSummary" where
  "summary_step st summary =
     (if css_status st = S_COMPLETED then
        summary\<lparr>sum_completed := sum_completed summary + 1\<rparr>
      else if css_status st = S_NEEDS_REMINDER then
        summary\<lparr>sum_needs_reminder := sum_needs_reminder summary + 1\<rparr>
      else if css_status st \<in> set [S_PROGRESSED, S_STARTED] then
        (let summary' = summary\<lparr>sum_in_progress := sum_in_progress summary + 1\<rparr>
         in if days_overdue st = 0
            then summary'\<lparr>sum_on_track := sum_on_track summary' + 1\<rparr>
            else summary')
      else summary)"

definition get_user_summary ::
  "ScheduleStatusService \<Rightarrow> CourseEnrollment list \<Rightarrow> datetime \<Rightarrow> py_error + UserSummary" where
  "get_user_summary self enrollments current_date =
     (case calculate_user_status self enrollments current_date of
        Inl err \<Rightarrow> Inl err
      | Inr all_statuses \<Rightarrow>
          Inr (fold summary_step all_statuses
                 \<lparr>sum_total_courses = int (length all_statuses), sum_completed = 0,
                  sum_in_progress = 0, sum_needs_reminder = 0, sum_on_track = 0\<rparr>))"

subsection \<open>The email templates (\<^verbatim>\<open>services/email_templates.py\<close>)\<close>

text \<open>
  Strings are byte strings in UTF-8: the bullet of the course lines is three bytes and
  the line feed is \<open>CHR 0x0A\<close>. \<open>py_join\<close> is \<^verbatim>\<open>sep.join(xs)\<close>.
\<close>

fun py_join :: "string \<Rightarrow> string list \<Rightarrow> string" where
  "py_join sep [] = []"
| "py_join sep [x] = x"
| "py_join sep (x # y # ys) = x @ sep @ py_join sep (y # ys)"

definition newline :: string where
  "newline = [CHR 0x0A]"

definition bullet :: string where
  "bullet = [CHR 0xE2, CHR 0x80, CHR 0xA2]"

definition apostrophe :: string where
  "apostrophe = [CHR 0x27]"

text \<open>Each subclass of \<^verbatim>\<open>EmailTemplate\<close> is a constructor holding the user.\<close>

datatype EmailTemplate =
    NeedsReminderTemplate User
  | ProgressedTemplate User
  | StartedTemplate User
  | CompletedTemplate User

primrec generate_subject :: "EmailTemplate \<Rightarrow> string" where
  "generate_subject (NeedsReminderTemplate u) =
     ''[Action Required] Course Completion Reminder for '' @ name u"
| "generate_subject (ProgressedTemplate u) =
     ''Great Progress on Your Learning Journey, '' @ name u @ ''!''"
| "generate_subject (StartedTemplate u) =
     ''Welcome to Your Learning Journey, '' @ name u @ ''!''"
| "generate_subject (CompletedTemplate u) =
     ''Congratulations on Completing Your Courses, '' @ name u @ ''!''"

definition course_details :: "CourseScheduleStatus list \<Rightarrow> string" where
  "course_details courses =
     py_join newline
       (map (\<lambda>course. ''  '' @ bullet @ '' '' @ css_course_id course @ '': '' @ message course)
          courses)"

primrec generate_body :: "EmailTemplate \<Rightarrow> CourseScheduleStatus list \<Rightarrow> string" where
  "generate_body (NeedsReminderTemplate u) courses =
     py_join newline
       [ [],
        ''Hi '' @ name u @ '','',
        [],
        ''This is a friendly reminder that you have courses that require your attention. '',
        ''The following courses are overdue and need to be completed:'',
        [],
        course_details courses,
        [],
        ''Please prioritize completing these courses to stay on track with your learning goals.'',
        [],
        ''If you'' @ apostrophe @ ''re experiencing any difficulties, please reach out to your manager or the L&D team.'',
        [],
        ''Best regards,'',
        ''Learning & Development Team'',
        []]"
| "generate_body (ProgressedTemplate u) courses =
     py_join newline
       [ [],
        ''Hi '' @ name u @ '','',
        [],
        ''We wanted to acknowledge your excellent progress on your assigned courses!'',
        [],
        ''Current Progress:'',
        course_details courses,
        [],
        ''Keep up the great work! You'' @ apostrophe @ ''re on track to complete your learning goals.'',
        [],
        ''Best regards,'',
        ''Learning & Development Team'',
        []]"
| "generate_body (StartedTemplate u) courses =
     py_join newline
       [ [],
        ''Hi '' @ name u @ '','',
        [],
        ''Welcome! We'' @ apostrophe @ ''re excited to see you'' @ apostrophe @ ''ve started your learning journey.'',
        [],
        ''Your Active Courses:'',
        course_details courses,
        [],
        ''Remember to complete these courses within the allocated timeframe. If you need any support, '',
        ''don'' @ apostrophe @ ''t hesitate to reach out.'',
        [],
        ''Best regards,'',
        ''Learning & Development Team'',
        []]"
| "generate_body (CompletedTemplate u) courses =
     py_join newline
       [ [],
        ''Hi '' @ name u @ '','',
        [],
        ''Congratulations! You'' @ apostrophe @ ''ve successfully completed the following courses:'',
        [],
        course_details courses,
        [],
        ''Your dedication to continuous learning is commendable. These accomplishments have been '',
        ''recorded and your manager has been notified.'',
        [],
        ''Best regards,'',
        ''Learning & Development Team'',
        []]"

text \<open>
  \<^verbatim>\<open>get_template\<close> looks its argument up in a dictionary keyed by the four members of
  \<^verbatim>\<open>ScheduleStatus\<close>, with \<^verbatim>\<open>NeedsReminderTemplate\<close> as the default of
  \<^verbatim>\<open>dict.get\<close>. Python does not check the annotation, so the argument is either a
  member of the enumeration or some other hashable value, which equals no key of the
  dictionary; \<open>Foreign\<close> stands for such a value (a plain string, say).
\<close>

datatype status_key = Member ScheduleStatus | Foreign string

definition template_map :: "status_key \<rightharpoonup> (User \<Rightarrow> EmailTemplate)" where
  "template_map =
     map_of [(Member S_NEEDS_REMINDER, NeedsReminderTemplate),
             (Member S_PROGRESSED, ProgressedTemplate),
             (Member S_STARTED, StartedTemplate),
             (Member S_COMPLETED, CompletedTemplate)]"

definition get_template :: "status_key \<Rightarrow> User \<Rightarrow> EmailTemplate" where
  "get_template st user =
     (let template_class = (case template_map st of
                              None \<Rightarrow> NeedsReminderTemplate
                            | Some c \<Rightarrow> c)
      in template_class user)"

text \<open>The manager summary: one dictionary per team member, here a record.\<close>

record summary_row =
  user_name :: string
  user_email :: string
  completed_count :: int
  in_progress_count :: int
  needs_reminder_count :: int
  row_total_courses :: int

definition manager_subject :: "int \<Rightarrow> string" where
  "manager_subject user_count =
     ''Daily Learning Progress Report - '' @ str_int user_count @ '' Team Members''"

definition summary_line :: "summary_row \<Rightarrow> string" where
  "summary_line summary =
     (let needs_attention = needs_reminder_count summary;
          status_emoji = (if 0 < needs_attention then ''[NEEDS ATTENTION]'' else ''[COMPLETED]'')
      in status_emoji @ '' '' @ user_name summary @ '': ''
           @ str_int (completed_count summary) @ '' completed, ''
           @ str_int (in_progress_count summary) @ '' in progress, ''
           @ str_int needs_attention @ '' needs attention'')"

definition manager_body :: "summary_row list \<Rightarrow> string" where
  "manager_body user_summaries =
     py_join newline
       [ [],
        ''Hello,'',
        [],
        ''Here'' @ apostrophe @ ''s your daily learning progress report for your team:'',
        [],
        py_join newline (map summary_line user_summaries),
        [],
        ''Team members with courses needing attention have been sent reminder emails.'',
        [],
        ''For detailed progress information, please check the learning management dashboard.'',
        [],
        ''Best regards,'',
        ''Learning & Development Team'',
        []]"

subsection \<open>The email service (\<^verbatim>\<open>services/email_service.py\<close>)\<close>

text \<open>
  An email record is the dictionary built by the two send methods. The timestamp is
  kept as the clock reading itself rather than its ISO text; the entries
  \<^verbatim>\<open>status_type\<close> and \<^verbatim>\<open>course_ids\<close> exist for a user reminder only, and
  \<^verbatim>\<open>user_count\<close> for a manager summary only.
\<close>

record email_record =
  em_timestamp :: datetime
  em_to :: string
  em_from :: string
  em_subject :: string
  em_body :: string
  em_type :: string
  em_status_type :: "string option"
  em_course_ids :: "string list option"
  em_user_count :: "int option"

record EmailService =
  log_file :: string
  sent_emails :: "email_record list"

definition new_email_service :: EmailService where
  "new_email_service = \<lparr>log_file = ''data/email_log.json'', sent_emails = []\<rparr>"

primrec status_value :: "ScheduleStatus \<Rightarrow> string" where
  "status_value S_STARTED = ''started''"
| "status_value S_NEEDS_REMINDER = ''needs reminder''"
| "status_value S_PROGRESSED = ''progressed''"
| "status_value S_COMPLETED = ''completed''"

definition log_email :: "EmailService \<Rightarrow> email_record \<Rightarrow> EmailService" where
  "log_email self email_record = self\<lparr>sent_emails := sent_emails self @ [email_record]\<rparr>"

text \<open>
  The send methods read the system clock for the timestamp; the reading is the
  argument \<open>now\<close>. They return the flag together with the updated service.
\<close>

definition send_user_reminder ::
  "EmailService \<Rightarrow> datetime \<Rightarrow> User \<Rightarrow> CourseScheduleStatus list \<Rightarrow> ScheduleStatus
     \<Rightarrow> bool \<times> EmailService" where
  "send_user_reminder self now user courses status_type =
     (if courses = [] then (False, self)
      else
        let template = get_template (Member status_type) user;
            subject = generate_subject template;
            body = generate_body template courses;
            email_record =
              \<lparr>em_timestamp = now, em_to = email user,
               em_from = ''noreply@learningplatform.com'',
               em_subject = subject, em_body = body, em_type = ''user_reminder'',
               em_status_type = Some (status_value status_type),
               em_course_ids = Some (map css_course_id courses),
               em_user_count = None\<rparr>
        in (True, log_email self email_record))"

definition send_manager_summary ::
  "EmailService \<Rightarrow> datetime \<Rightarrow> string \<Rightarrow> summary_row list \<Rightarrow> bool \<times> EmailService" where
  "send_manager_summary self now manager user_summaries =
     (if user_summaries = [] then (False, self)
      else
        let subject = manager_subject (int (length user_summaries));
            body = manager_body user_summaries;
            email_record =
              \<lparr>em_timestamp = now, em_to = manager,
               em_from = ''noreply@learningplatform.com'',
               em_subject = subject, em_body = body, em_type = ''manager_summary'',
               em_status_type = None, em_course_ids = None,
               em_user_count = Some (int (length user_summaries))\<rparr>
        in (True, log_email self email_record))"

text \<open>
  The log file on disk. What \<^verbatim>\<open>save_email_log\<close> can find there: no file, a file
  that is not JSON, a JSON array (of the records earlier runs wrote), some other
  JSON value, or a file that cannot be opened for reading. \<open>on_write\<close> says what happens when the method writes the file:
  the write succeeds; or \<^verbatim>\<open>open(..., 'w')\<close> raises and the file is not touched; or
  the file is opened, which empties it, and \<^verbatim>\<open>json.dump\<close> raises before the text is
  complete, which leaves a file that is not JSON.
\<close>

datatype file_content =
    Missing
  | Malformed
  | JsonList "email_record list"
  | JsonOther
  | Unreadable

datatype write_outcome = WriteSucceeds | OpenFails | DumpFails

record log_store =
  content :: file_content
  on_write :: write_outcome

datatype json_value = PyList "email_record list" | PyOther

definition json_load :: "log_store \<Rightarrow> py_error + json_value" where
  "json_load f =
     (case content f of
        Missing \<Rightarrow> Inl FileNotFoundError
      | Malformed \<Rightarrow> Inl JSONDecodeError
      | JsonList xs \<Rightarrow> Inr (PyList xs)
      | JsonOther \<Rightarrow> Inr PyOther
      | Unreadable \<Rightarrow> Inl OSError)"

definition py_extend :: "json_value \<Rightarrow> email_record list \<Rightarrow> py_error + email_record list" where
  "py_extend v new =
     (case v of PyList xs \<Rightarrow> Inr (xs @ new) | PyOther \<Rightarrow> Inl AttributeError)"

text \<open>
  The block \<^verbatim>\<open>with open(self.log_file, 'w') as f: json.dump(existing_logs, f, indent=2)\<close>:
  the exception it raises, if any, and the file it leaves behind.
\<close>

definition json_dump :: "log_store \<Rightarrow> email_record list \<Rightarrow> py_error option \<times> log_store" where
  "json_dump f logs =
     (case on_write f of
        WriteSucceeds \<Rightarrow> (None, f\<lparr>content := JsonList logs\<rparr>)
      | OpenFails \<Rightarrow> (Some OSError, f)
      | DumpFails \<Rightarrow> (Some OSError, f\<lparr>content := Malformed\<rparr>))"

text \<open>
  \<^verbatim>\<open>save_email_log\<close>: the inner handler turns a missing or malformed file into the
  empty list; the outer handler catches every other exception, prints it and returns,
  so the method never raises. The file is then as the failing statement left it.
\<close>

definition save_email_log :: "EmailService \<Rightarrow> log_store \<Rightarrow> log_store" where
  "save_email_log self f =
     (let loaded = (case json_load f of
                      Inl FileNotFoundError \<Rightarrow> Inr (PyList [])
                    | Inl JSONDecodeError \<Rightarrow> Inr (PyList [])
                    | Inl err \<Rightarrow> Inl err
                    | Inr v \<Rightarrow> Inr v)
      in case loaded of
           Inl err \<Rightarrow> f
         | Inr existing_logs \<Rightarrow>
             (case py_extend existing_logs (sent_emails self) of
                Inl err \<Rightarrow> f
              | Inr logs \<Rightarrow>
                  (case json_dump f logs of
                     (Some err, f') \<Rightarrow> f'
                   | (None, f') \<Rightarrow> f')))"

subsection \<open>The daily reminder job (\<^verbatim>\<open>jobs/daily_reminder_job.py\<close>)\<close>

text \<open>
  The job object. \<^verbatim>\<open>status_service\<close> is \<^verbatim>\<open>None\<close> until \<^verbatim>\<open>load_data\<close> has run.
\<close>

record DailyReminderJob =
  users :: "User list"
  enrollments_by_user :: "string \<rightharpoonup> CourseEnrollment list"
  schedules :: "CourseSchedule list"
  status_service :: "ScheduleStatusService option"
  email_service :: EmailService

definition new_job :: DailyReminderJob where
  "new_job = \<lparr>users = [], enrollments_by_user = Map.empty, schedules = [],
              status_service = None, email_service = new_email_service\<rparr>"

text \<open>
  \<^verbatim>\<open>load_data\<close> reads three JSON files; the parsed contents are its argument here.
  The users and schedules replace the old ones, each user's enrollments are stored
  under the user id, and the status service is built from the schedules.
\<close>

record loaded_data =
  users_data :: "User list"
  schedules_data :: "CourseSchedule list"
  enrollments_data :: "(string \<times> CourseEnrollment list) list"

definition load_data :: "DailyReminderJob \<Rightarrow> loaded_data \<Rightarrow> DailyReminderJob" where
  "load_data self d =
     self\<lparr>users := users_data d,
          schedules := schedules_data d,
          enrollments_by_user :=
            fold (\<lambda>(uid, enrollments) m. m(uid \<mapsto> enrollments))
              (enrollments_data d) (enrollments_by_user self),
          status_service := Some (new_service (schedules_data d))\<rparr>"

text \<open>
  \<^verbatim>\<open>manager_summaries\<close> is a \<^verbatim>\<open>defaultdict(list)\<close>, iterated in insertion order:
  an association list in which a new manager goes to the end.
\<close>

fun add_summary ::
  "string \<Rightarrow> summary_row \<Rightarrow> (string \<times> summary_row list) list
     \<Rightarrow> (string \<times> summary_row list) list" where
  "add_summary k row [] = [(k, [row])]"
| "add_summary k row ((k', rows) # kvs) =
     (if k = k' then (k', rows @ [row]) # kvs else (k', rows) # add_summary k row kvs)"

text \<open>
  The loop over the users of \<^verbatim>\<open>process_reminders\<close>, with its two accumulators. The
  body has no handler: an exception of \<^verbatim>\<open>calculate_user_status\<close> or
  \<^verbatim>\<open>get_user_summary\<close> leaves the loop and the method.
\<close>

fun process_users ::
  "ScheduleStatusService option \<Rightarrow> (string \<rightharpoonup> CourseEnrollment list) \<Rightarrow> datetime \<Rightarrow> User list
     \<Rightarrow> (User \<times> CourseScheduleStatus list) list \<Rightarrow> (string \<times> summary_row list) list
     \<Rightarrow> py_error + (User \<times> CourseScheduleStatus list) list \<times> (string \<times> summary_row list) list"
  where
  "process_users svc ebu current_date [] users_needing_reminders manager_summaries =
     Inr (users_needing_reminders, manager_summaries)"
| "process_users svc ebu current_date (user # rest) users_needing_reminders manager_summaries =
     (let enrollments = (case ebu (user_id user) of None \<Rightarrow> [] | Some es \<Rightarrow> es)
      in if enrollments = [] then
           process_users svc ebu current_date rest users_needing_reminders manager_summaries
         else
           (case svc of
              None \<Rightarrow> Inl AttributeError
            | Some service \<Rightarrow>
                (case calculate_user_status service enrollments current_date of
                   Inl err \<Rightarrow> Inl err
                 | Inr statuses \<Rightarrow>
                     (let needs = filter (\<lambda>s. css_status s = S_NEEDS_REMINDER) statuses;
                          users_needing_reminders' =
                            (if needs \<noteq> [] then users_needing_reminders @ [(user, needs)]
                             else users_needing_reminders)
                      in case get_user_summary service enrollments current_date of
                           Inl err \<Rightarrow> Inl err
                         | Inr summary \<Rightarrow>
                             process_users svc ebu current_date rest users_needing_reminders'
                               (add_summary (manager_email user)
                                  \<lparr>user_name = name user, user_email = email user,
                                   completed_count = sum_completed summary,
                                   in_progress_count = sum_in_progress summary,
                                   needs_reminder_count = sum_needs_reminder summary,
                                   row_total_courses = sum_total_courses summary\<rparr>
                                  manager_summaries)))))"

text \<open>
  The two sending loops. \<open>clock k\<close> is the reading of the system clock once \<open>k\<close>
  emails have been logged by the service.
\<close>

fun send_reminders ::
  "(nat \<Rightarrow> datetime) \<Rightarrow> (User \<times> CourseScheduleStatus list) list \<Rightarrow> EmailService \<Rightarrow> int
     \<Rightarrow> EmailService \<times> int" where
  "send_reminders clock [] es users_emailed = (es, users_emailed)"
| "send_reminders clock ((user, courses) # rest) es users_emailed =
     (case send_user_reminder es (clock (length (sent_emails es))) user courses S_NEEDS_REMINDER of
        (sent, es') \<Rightarrow>
          send_reminders clock rest es' (if sent then users_emailed + 1 else users_emailed))"

fun send_summaries ::
  "(nat \<Rightarrow> datetime) \<Rightarrow> (string \<times> summary_row list) list \<Rightarrow> EmailService \<Rightarrow> int
     \<Rightarrow> EmailService \<times> int" where
  "send_summaries clock [] es managers_emailed = (es, managers_emailed)"
| "send_summaries clock ((manager, summaries) # rest) es managers_emailed =
     (case send_manager_summary es (clock (length (sent_emails es))) manager summaries of
        (sent, es') \<Rightarrow>
          send_summaries clock rest es' (if sent then managers_emailed + 1 else managers_emailed))"

record job_stats =
  execution_date :: datetime
  users_processed :: int
  users_needing_reminders :: int
  reminder_emails_sent :: int
  manager_summaries_sent :: int
  total_emails_sent :: int

text \<open>
  \<^verbatim>\<open>process_reminders\<close> returns the statistics, the job with its updated email
  service, and the log file as \<^verbatim>\<open>save_email_log\<close> left it. When the loop over the
  users raises, nothing has been sent or saved yet and the exception is the result.
\<close>

definition process_reminders ::
  "DailyReminderJob \<Rightarrow> datetime option \<Rightarrow> (nat \<Rightarrow> datetime) \<Rightarrow> log_store
     \<Rightarrow> py_error + job_stats \<times> DailyReminderJob \<times> log_store" where
  "process_reminders self date_arg clock f =
     (let current_date = (case date_arg of
                            None \<Rightarrow> clock (length (sent_emails (email_service self)))
                          | Some d \<Rightarrow> d)
      in case process_users (status_service self) (enrollments_by_user self) current_date
                (users self) [] [] of
           Inl err \<Rightarrow> Inl err
         | Inr (users_needing, manager_summaries) \<Rightarrow>
             (case send_reminders clock users_needing (email_service self) 0 of
                (es1, users_emailed) \<Rightarrow>
                  (case send_summaries clock manager_summaries es1 0 of
                     (es2, managers_emailed) \<Rightarrow>
                       (let f' = save_email_log es2 f;
                            stats =
                              \<lparr>execution_date = current_date,
                               users_processed = int (length (users self)),
                               users_needing_reminders = int (length users_needing),
                               reminder_emails_sent = users_emailed,
                               manager_summaries_sent = managers_emailed,
                               total_emails_sent = users_emailed + managers_emailed\<rparr>
                        in Inr (stats, self\<lparr>email_service := es2\<rparr>, f')))))"

text \<open>
  \<^verbatim>\<open>run\<close>: load, process, return the statistics; its handler prints the exception and
  raises it again. A failure of \<^verbatim>\<open>load_data\<close> (a missing or malformed data file) is
  the case \<open>Inl\<close> of the argument \<open>files\<close>.
\<close>

definition run ::
  "DailyReminderJob \<Rightarrow> py_error + loaded_data \<Rightarrow> datetime option \<Rightarrow> (nat \<Rightarrow> datetime)
     \<Rightarrow> log_store \<Rightarrow> py_error + job_stats \<times> DailyReminderJob \<times> log_store" where
  "run self files date_arg clock f =
     (case files of
        Inl err \<Rightarrow> Inl err
      | Inr d \<Rightarrow>
          (case process_reminders (load_data self d) date_arg clock f of
             Inl err \<Rightarrow> Inl err
           | Inr res \<Rightarrow> Inr res))"

subsection \<open>Example data\<close>

text \<open>
  The schedule and enrollments of the scenarios: course \<open>C1\<close> with two days to
  complete, enrollments made on 2025-01-01.
\<close>

definition ex_schedule :: CourseSchedule where
  "ex_schedule = \<lparr>sched_course_id = ''C1'', days_to_complete = 2, batch = 1\<rparr>"

definition ex_service :: ScheduleStatusService where
  "ex_service = new_service [ex_schedule]"

definition ex_in_progress :: CourseEnrollment where
  "ex_in_progress =
     \<lparr>course_id = ''C1'', status = E_IN_PROGRESS,
      enrollment_date = mk_datetime 2025 1 1 0 0 0,
      start_date = Some (mk_datetime 2025 1 1 0 0 0), completion_date = None\<rparr>"

definition ex_completed :: CourseEnrollment where
  "ex_completed =
     \<lparr>course_id = ''C1'', status = E_COMPLETED,
      enrollment_date = mk_datetime 2025 1 1 0 0 0,
      start_date = Some (mk_datetime 2025 1 1 0 0 0),
      completion_date = Some (mk_datetime 2025 1 1 10 54 0)\<rparr>"

text \<open>Tagged \<^verbatim>\<open>Completed\<close>, but without a completion date.\<close>

definition ex_completed_no_date :: CourseEnrollment where
  "ex_completed_no_date =
     \<lparr>course_id = ''C1'', status = E_COMPLETED,
      enrollment_date = mk_datetime 2025 1 1 0 0 0,
      start_date = None, completion_date = None\<rparr>"

text \<open>A completion date is set, but the tag still says \<^verbatim>\<open>In Progress\<close>.\<close>

definition ex_dated_in_progress :: CourseEnrollment where
  "ex_dated_in_progress =
     \<lparr>course_id = ''C1'', status = E_IN_PROGRESS,
      enrollment_date = mk_datetime 2025 1 1 0 0 0,
      start_date = Some (mk_datetime 2025 1 1 0 0 0),
      completion_date = Some (mk_datetime 2025 1 2 0 0 0)\<rparr>"

text \<open>An enrollment in a course that has no schedule.\<close>

definition ex_unscheduled :: CourseEnrollment where
  "ex_unscheduled =
     \<lparr>course_id = ''C9'', status = E_COMPLETED,
      enrollment_date = mk_datetime 2024 1 1 0 0 0,
      start_date = None, completion_date = None\<rparr>"

definition alice :: User where
  "alice = \<lparr>user_id = ''u1'', name = ''Alice'', email = ''alice@example.com'',
            manager_email = ''boss@example.com'', hire_date = mk_datetime 2024 6 1 0 0 0\<rparr>"

definition bob :: User where
  "bob = \<lparr>user_id = ''u2'', name = ''Bob'', email = ''bob@example.com'',
          manager_email = ''boss@example.com'', hire_date = mk_datetime 2024 6 1 0 0 0\<rparr>"

text \<open>
  Data files in which the first user's only enrollment is tagged completed without a
  completion date, and the second user's enrollment is overdue.
\<close>

definition ex_files :: loaded_data where
  "ex_files =
     \<lparr>users_data = [alice, bob], schedules_data = [ex_schedule],
      enrollments_data = [(''u1'', [ex_completed_no_date]), (''u2'', [ex_in_progress])]\<rparr>"

definition ex_clock :: "nat \<Rightarrow> datetime" where
  "ex_clock k = mk_datetime 2025 1 10 9 0 0"

definition ex_store :: log_store where
  "ex_store = \<lparr>content = Missing, on_write = WriteSucceeds\<rparr>"

text \<open>The same data files without the first user's enrollment.\<close>

definition ex_files_rest :: loaded_data where
  "ex_files_rest =
     \<lparr>users_data = [alice, bob], schedules_data = [ex_schedule],
      enrollments_data = [(''u2'', [ex_in_progress])]\<rparr>"

text \<open>A record left in the log by an earlier run, and one composed in this run.\<close>

definition ex_old_record :: email_record where
  "ex_old_record =
     \<lparr>em_timestamp = mk_datetime 2025 1 9 9 0 0, em_to = ''bob@example.com'',
      em_from = ''noreply@learningplatform.com'',
      em_subject = ''[Action Required] Course Completion Reminder for Bob'',
      em_body = ''earlier'', em_type = ''user_reminder'',
      em_status_type = Some ''needs reminder'', em_course_ids = Some [''C1''],
      em_user_count = None\<rparr>"

definition ex_new_record :: email_record where
  "ex_new_record =
     \<lparr>em_timestamp = mk_datetime 2025 1 10 9 0 0, em_to = ''boss@example.com'',
      em_from = ''noreply@learningplatform.com'',
      em_subject = ''Daily Learning Progress Report - 1 Team Members'',
      em_body = ''today'', em_type = ''manager_summary'',
      em_status_type = None, em_course_ids = None, em_user_count = Some 1\<rparr>"

text \<open>
  A log that holds one record and can be written, and an email service that has sent
  one record.
\<close>

definition ex_log :: log_store where
  "ex_log = \<lparr>content = JsonList [ex_old_record], on_write = WriteSucceeds\<rparr>"

definition ex_sender :: EmailService where
  "ex_sender = \<lparr>log_file = ''data/email_log.json'', sent_emails = [ex_new_record]\<rparr>"

section \<open>Properties\<close>

subsection \<open>Facts about the examples and the loops\<close>

lemma ex_service_lookup:
  "schedules_map ex_service k = (if k = ''C1'' then Some ex_schedule else None)"
  by (simp add: ex_service_def new_service_def ex_schedule_def)

lemma mk_datetime_days:
  "mk_datetime 2025 1 1 0 0 0 = 739251 * us_per_day"
  "mk_datetime 2025 1 2 0 0 0 = 739252 * us_per_day"
  "mk_datetime 2025 1 3 0 0 0 = 739253 * us_per_day"
  "mk_datetime 2025 1 4 0 0 0 = 739254 * us_per_day"
  "mk_datetime 2025 1 11 0 0 0 = 739261 * us_per_day"
  by (simp_all add: mk_datetime_def ymd2ord_def days_before_year_def days_before_month_def
        DAYS_BEFORE_MONTH_def us_per_day_def)

lemma calculate_status_no_date:
  "calculate_status self ex_completed_no_date sch d = Inl AttributeError"
  by (simp add: calculate_status_def is_completed_def ex_completed_no_date_def)

lemma calculate_user_status_no_date:
  "calculate_user_status ex_service [ex_completed_no_date] d = Inl AttributeError"
proof -
  have "course_id ex_completed_no_date = ''C1''"
    by (simp add: ex_completed_no_date_def)
  then show ?thesis
    by (simp add: calculate_user_status_def ex_service_lookup calculate_status_no_date)
qed

text \<open>What a returned status looks like, case by case.\<close>

lemma calculate_status_returns:
  assumes "is_completed e \<longrightarrow> completion_date e \<noteq> None"
  shows "\<exists>st. calculate_status self e sch d = Inr st"
  using assms by (auto simp: calculate_status_def Let_def)

lemma calculate_status_fields:
  assumes "calculate_status self e sch d = Inr st"
  shows "enrollment st = Some e" and "schedule st = sch" and "css_course_id st = course_id e"
  using assms
  by (auto simp: calculate_status_def Let_def split: if_splits option.splits)

lemma calculate_status_days_overdue:
  assumes "calculate_status self e sch d = Inr st"
  shows "0 \<le> days_overdue st" and "css_status st \<noteq> S_NEEDS_REMINDER \<Longrightarrow> days_overdue st = 0"
  using assms
  by (auto simp: calculate_status_def Let_def split: if_splits option.splits)

text \<open>The accumulator of the loop only grows at its end.\<close>

lemma user_status_loop_acc:
  "user_status_loop self es d acc =
     (case user_status_loop self es d [] of
        Inl err \<Rightarrow> Inl err
      | Inr sts \<Rightarrow> Inr (acc @ sts))"
proof (induction es arbitrary: acc)
  case Nil
  show ?case by simp
next
  case (Cons e es)
  show ?case
  proof (cases "schedules_map self (course_id e)")
    case None
    then show ?thesis using Cons.IH [of acc] by simp
  next
    case (Some sch)
    show ?thesis
    proof (cases "calculate_status self e sch d")
      case (Inl err)
      with Some show ?thesis by simp
    next
      case (Inr st)
      with Some show ?thesis
        using Cons.IH [of "acc @ [st]"] Cons.IH [of "[st]"]
        by (simp split: sum.splits)
    qed
  qed
qed

lemma calculate_user_status_Nil:
  "calculate_user_status self [] d = Inr []"
  by (simp add: calculate_user_status_def)

lemma calculate_user_status_Cons:
  "calculate_user_status self (e # es) d =
     (case schedules_map self (course_id e) of
        None \<Rightarrow> calculate_user_status self es d
      | Some sch \<Rightarrow>
          (case calculate_status self e sch d of
             Inl err \<Rightarrow> Inl err
           | Inr st \<Rightarrow>
               (case calculate_user_status self es d of
                  Inl err \<Rightarrow> Inl err
                | Inr sts \<Rightarrow> Inr (st # sts))))"
proof (cases "schedules_map self (course_id e)")
  case None
  then show ?thesis by (simp add: calculate_user_status_def)
next
  case (Some sch)
  show ?thesis
  proof (cases "calculate_status self e sch d")
    case (Inl err)
    with Some show ?thesis by (simp add: calculate_user_status_def)
  next
    case (Inr st)
    with Some show ?thesis
      using user_status_loop_acc [of self es d "[st]"]
      by (simp add: calculate_user_status_def split: sum.splits)
  qed
qed

text \<open>
  Every status the loop returns belongs to one enrollment that has a schedule, in the
  order of the enrollments.
\<close>

lemma calculate_user_status_matched:
  assumes "calculate_user_status self es d = Inr sts"
  shows "list_all2
           (\<lambda>e st. \<exists>sch. schedules_map self (course_id e) = Some sch
                      \<and> calculate_status self e sch d = Inr st)
           (filter (\<lambda>e. schedules_map self (course_id e) \<noteq> None) es) sts"
  using assms
proof (induction es arbitrary: sts)
  case Nil
  then show ?case by (simp add: calculate_user_status_Nil)
next
  case (Cons e es)
  show ?case
  proof (cases "schedules_map self (course_id e)")
    case None
    with Cons show ?thesis by (simp add: calculate_user_status_Cons)
  next
    case (Some sch)
    with Cons.prems obtain st rest where
      st: "calculate_status self e sch d = Inr st" and
      rest: "calculate_user_status self es d = Inr rest" and
      sts: "sts = st # rest"
      by (auto simp: calculate_user_status_Cons split: sum.splits)
    from Cons.IH [OF rest] Some st sts show ?thesis by simp
  qed
qed

lemma calculate_user_status_total:
  assumes "\<forall>e \<in> set es. schedules_map self (course_id e) \<noteq> None
             \<longrightarrow> is_completed e \<longrightarrow> completion_date e \<noteq> None"
  shows "\<exists>sts. calculate_user_status self es d = Inr sts"
  using assms
proof (induction es)
  case Nil
  show ?case by (simp add: calculate_user_status_Nil)
next
  case (Cons e es)
  then obtain rest where rest: "calculate_user_status self es d = Inr rest"
    by auto
  show ?case
  proof (cases "schedules_map self (course_id e)")
    case None
    with rest show ?thesis by (simp add: calculate_user_status_Cons)
  next
    case (Some sch)
    with Cons.prems have "is_completed e \<longrightarrow> completion_date e \<noteq> None"
      by simp
    from calculate_status_returns [OF this]
    obtain st where "calculate_status self e sch d = Inr st"
      by blast
    with Some rest show ?thesis by (simp add: calculate_user_status_Cons)
  qed
qed

lemma calculate_user_status_days_overdue:
  assumes "calculate_user_status self es d = Inr sts" and "st \<in> set sts"
  shows "0 \<le> days_overdue st"
    and "css_status st \<noteq> S_NEEDS_REMINDER \<Longrightarrow> days_overdue st = 0"
proof -
  from calculate_user_status_matched [OF assms(1)] assms(2)
  obtain e sch where "calculate_status self e sch d = Inr st"
    by (auto simp: list_all2_conv_all_nth in_set_conv_nth)
  then show "0 \<le> days_overdue st"
    and "css_status st \<noteq> S_NEEDS_REMINDER \<Longrightarrow> days_overdue st = 0"
    by (rule calculate_status_days_overdue)+
qed

text \<open>The counting loop of the summary keeps the two counters equal.\<close>

lemma fold_summary_step_on_track:
  assumes "\<forall>st \<in> set sts. css_status st \<noteq> S_NEEDS_REMINDER \<longrightarrow> days_overdue st = 0"
    and "sum_on_track s = sum_in_progress s"
  shows "sum_on_track (fold summary_step sts s) = sum_in_progress (fold summary_step sts s)"
  using assms
proof (induction sts arbitrary: s)
  case Nil
  then show ?case by simp
next
  case (Cons st sts)
  have "sum_on_track (summary_step st s) = sum_in_progress (summary_step st s)"
    using Cons.prems by (auto simp: summary_step_def Let_def)
  with Cons show ?case by simp
qed

lemma fold_summary_step_in_progress:
  "sum_in_progress (fold summary_step sts s) =
     sum_in_progress s
       + int (length (filter (\<lambda>st. css_status st = S_PROGRESSED \<or> css_status st = S_STARTED) sts))"
proof (induction sts arbitrary: s)
  case Nil
  show ?case by simp
next
  case (Cons st sts)
  have "sum_in_progress (summary_step st s) =
          sum_in_progress s
            + (if css_status st = S_PROGRESSED \<or> css_status st = S_STARTED then 1 else 0)"
    by (auto simp: summary_step_def Let_def)
  with Cons.IH [of "summary_step st s"] show ?case by simp
qed

text \<open>An exception raised for the first user leaves the loop over the users at once.\<close>

lemma process_users_propagates:
  assumes "ebu (user_id u) = Some es" and "es \<noteq> []"
    and "calculate_user_status service es d = Inl err"
  shows "process_users (Some service) ebu d (u # rest) acc ms = Inl err"
  using assms by simp

text \<open>What the first case of \<^verbatim>\<open>calculate_status\<close> returns when tag and date agree.\<close>

lemma calculate_status_completed:
  assumes "status e = E_COMPLETED" and "completion_date e = Some cd"
  shows "calculate_status self e sch d =
           Inr \<lparr>css_course_id = course_id e, css_status = S_COMPLETED, enrollment = Some e,
                schedule = sch, days_overdue = 0,
                message = ''Completed on '' @ strftime_ymd cd\<rparr>"
  using assms by (simp add: calculate_status_def is_completed_def)

subsection \<open>The status evaluator\<close>

text \<open>
  C1. Claimed: every enrollment with a completion timestamp set is classified as
  Completed with zero days overdue, whatever the schedule and the as-of date, and never
  as NeedsReminder. The code decides completion by the lifecycle tag alone
  (\<^verbatim>\<open>is_completed\<close> compares \<^verbatim>\<open>status\<close>), so an enrollment that carries a
  completion date under the tag \<^verbatim>\<open>In Progress\<close> falls through to the overdue check:
  enrolled on 2025-01-01 with two days to complete and evaluated on 2025-01-11, it
  is classified NeedsReminder with eight days overdue.
\<close>

theorem completion_date_set_needs_reminder:
  "completion_date ex_dated_in_progress = Some (mk_datetime 2025 1 2 0 0 0)
   \<and> calculate_status ex_service ex_dated_in_progress ex_schedule (mk_datetime 2025 1 11 0 0 0) =
       Inr \<lparr>css_course_id = ''C1'', css_status = S_NEEDS_REMINDER,
            enrollment = Some ex_dated_in_progress, schedule = ex_schedule,
            days_overdue = 8, message = ''In progress but overdue - 8 days overdue''\<rparr>"
proof -
  have "digits_of 8 = ''8''"
    by (simp add: digits_of.simps)
  then show ?thesis
    by (simp add: calculate_status_def Let_def is_completed_def is_started_def
          days_since_enrollment_def timedelta_days_def mk_datetime_days str_int_def
          ex_dated_in_progress_def ex_schedule_def)
      (simp add: us_per_day_def)
qed

text \<open>
  C3. For an enrollment that is not completed, evaluated exactly
  \<open>days_to_complete\<close> days after the enrollment date the status is Progressed or
  Started with zero days overdue; one day later it is NeedsReminder with one day
  overdue; and at any as-of date the status is NeedsReminder exactly when the whole
  days elapsed since enrollment are strictly more than \<open>days_to_complete\<close>.
\<close>

theorem deadline_boundary:
  assumes "\<not> is_completed e"
  shows "(\<exists>st. calculate_status self e sch
                 (plus_days (enrollment_date e) (days_to_complete sch)) = Inr st
              \<and> (css_status st = S_PROGRESSED \<or> css_status st = S_STARTED)
              \<and> days_overdue st = 0)
       \<and> (\<exists>st. calculate_status self e sch
                 (plus_days (enrollment_date e) (days_to_complete sch + 1)) = Inr st
              \<and> css_status st = S_NEEDS_REMINDER \<and> days_overdue st = 1)
       \<and> ((\<exists>st. calculate_status self e sch as_of = Inr st \<and> css_status st = S_NEEDS_REMINDER)
            \<longleftrightarrow> days_to_complete sch < days_since_enrollment e as_of)"
proof -
  have at_deadline:
    "days_since_enrollment e (plus_days (enrollment_date e) (days_to_complete sch))
       = days_to_complete sch"
    by (simp add: days_since_enrollment_def timedelta_days_def plus_days_def us_per_day_def)
  have day_after:
    "days_since_enrollment e (plus_days (enrollment_date e) (days_to_complete sch + 1))
       = days_to_complete sch + 1"
    by (simp add: days_since_enrollment_def timedelta_days_def plus_days_def us_per_day_def)
  have first: "\<exists>st. calculate_status self e sch
                 (plus_days (enrollment_date e) (days_to_complete sch)) = Inr st
              \<and> (css_status st = S_PROGRESSED \<or> css_status st = S_STARTED)
              \<and> days_overdue st = 0"
    using assms by (simp add: calculate_status_def Let_def at_deadline)
  have second: "\<exists>st. calculate_status self e sch
                 (plus_days (enrollment_date e) (days_to_complete sch + 1)) = Inr st
              \<and> css_status st = S_NEEDS_REMINDER \<and> days_overdue st = 1"
    using assms by (simp add: calculate_status_def Let_def day_after)
  have third: "(\<exists>st. calculate_status self e sch as_of = Inr st \<and> css_status st = S_NEEDS_REMINDER)
            \<longleftrightarrow> days_to_complete sch < days_since_enrollment e as_of"
    using assms by (simp add: calculate_status_def Let_def)
  from first second third show ?thesis by blast
qed

theorem deadline_boundary_witness:
  "\<not> is_completed ex_in_progress
   \<and> (\<exists>st. calculate_status ex_service ex_in_progress ex_schedule
             (plus_days (enrollment_date ex_in_progress) (days_to_complete ex_schedule)) = Inr st
          \<and> (css_status st = S_PROGRESSED \<or> css_status st = S_STARTED)
          \<and> days_overdue st = 0)
   \<and> (\<exists>st. calculate_status ex_service ex_in_progress ex_schedule
             (plus_days (enrollment_date ex_in_progress) (days_to_complete ex_schedule + 1)) = Inr st
          \<and> css_status st = S_NEEDS_REMINDER \<and> days_overdue st = 1)"
proof -
  have h: "\<not> is_completed ex_in_progress"
    by (simp add: is_completed_def ex_in_progress_def)
  from deadline_boundary [OF h, where self = ex_service and sch = ex_schedule] h
  show ?thesis by blast
qed

text \<open>
  C5. Whenever \<^verbatim>\<open>calculate_status\<close> returns a status, its \<open>days_overdue\<close> is not
  negative, and it is zero unless the tag is NeedsReminder.
\<close>

theorem days_overdue_nonneg:
  assumes "calculate_status self e sch d = Inr st"
  shows "0 \<le> days_overdue st \<and> (css_status st \<noteq> S_NEEDS_REMINDER \<longrightarrow> days_overdue st = 0)"
  using calculate_status_days_overdue [OF assms] by simp

theorem days_overdue_nonneg_witness:
  "calculate_status ex_service ex_completed ex_schedule (mk_datetime 2025 1 11 0 0 0) =
     Inr \<lparr>css_course_id = ''C1'', css_status = S_COMPLETED, enrollment = Some ex_completed,
          schedule = ex_schedule, days_overdue = 0, message = ''Completed on 2025-01-01''\<rparr>
   \<and> 0 \<le> days_overdue
            \<lparr>css_course_id = ''C1'', css_status = S_COMPLETED, enrollment = Some ex_completed,
             schedule = ex_schedule, days_overdue = 0, message = ''Completed on 2025-01-01''\<rparr>
   \<and> css_status
        \<lparr>css_course_id = ''C1'', css_status = S_COMPLETED, enrollment = Some ex_completed,
         schedule = ex_schedule, days_overdue = 0, message = ''Completed on 2025-01-01''\<rparr>
       \<noteq> S_NEEDS_REMINDER"
proof -
  have date: "strftime_ymd (mk_datetime 2025 1 1 10 54 0) = ''2025-01-01''"
    by code_simp
  have h: "calculate_status ex_service ex_completed ex_schedule (mk_datetime 2025 1 11 0 0 0) =
     Inr \<lparr>css_course_id = ''C1'', css_status = S_COMPLETED, enrollment = Some ex_completed,
          schedule = ex_schedule, days_overdue = 0, message = ''Completed on 2025-01-01''\<rparr>"
    using calculate_status_completed [of ex_completed "mk_datetime 2025 1 1 10 54 0"]
    by (simp add: date) (simp add: ex_completed_def)
  from days_overdue_nonneg [OF h] h show ?thesis by simp
qed

text \<open>
  C7. An enrollment tagged Completed whose completion date is absent makes
  \<^verbatim>\<open>calculate_status\<close> raise \<^verbatim>\<open>AttributeError\<close> in its first case, whatever the
  schedule and the date; and the method returns a status exactly when the tag
  Completed comes with a completion date.
\<close>

theorem completed_without_date_raises:
  "(status e = E_COMPLETED \<and> completion_date e = None
      \<longrightarrow> calculate_status self e sch d = Inl AttributeError)
   \<and> ((\<exists>st. calculate_status self e sch d = Inr st)
        \<longleftrightarrow> (status e = E_COMPLETED \<longrightarrow> completion_date e \<noteq> None))"
  by (auto simp: calculate_status_def Let_def is_completed_def split: option.splits)

theorem completed_without_date_raises_witness:
  "status ex_completed_no_date = E_COMPLETED
   \<and> completion_date ex_completed_no_date = None
   \<and> calculate_status ex_service ex_completed_no_date ex_schedule (mk_datetime 2025 1 2 0 0 0)
       = Inl AttributeError"
proof -
  have h: "status ex_completed_no_date = E_COMPLETED \<and> completion_date ex_completed_no_date = None"
    by (simp add: ex_completed_no_date_def)
  with completed_without_date_raises
         [of ex_completed_no_date ex_service ex_schedule "mk_datetime 2025 1 2 0 0 0"]
  show ?thesis by blast
qed

subsection \<open>The aggregator\<close>

text \<open>
  What the loop does when every enrollment that has a schedule is well formed (a tag
  Completed comes with a completion date): one status per enrollment whose course id is
  a key of the schedule map, in the order of the enrollments. Enrollments without a
  schedule are left out without being looked at.
\<close>

lemma calculate_user_status_exclusion:
  assumes "\<forall>e \<in> set es. schedules_map self (course_id e) \<noteq> None
             \<longrightarrow> is_completed e \<longrightarrow> completion_date e \<noteq> None"
  shows "\<exists>sts. calculate_user_status self es d = Inr sts
           \<and> list_all2
               (\<lambda>e st. \<exists>sch. schedules_map self (course_id e) = Some sch
                          \<and> calculate_status self e sch d = Inr st)
               (filter (\<lambda>e. schedules_map self (course_id e) \<noteq> None) es) sts
           \<and> map enrollment sts
               = map Some (filter (\<lambda>e. schedules_map self (course_id e) \<noteq> None) es)
           \<and> length sts + length (filter (\<lambda>e. schedules_map self (course_id e) = None) es)
               = length es
           \<and> (length (filter (\<lambda>e. schedules_map self (course_id e) = None) es) = 1
                \<longrightarrow> length sts = length es - 1)"
proof -
  let ?matched = "\<lambda>e. schedules_map self (course_id e) \<noteq> None"
  from calculate_user_status_total [OF assms]
  obtain sts where sts: "calculate_user_status self es d = Inr sts"
    by blast
  have rel: "list_all2
               (\<lambda>e st. \<exists>sch. schedules_map self (course_id e) = Some sch
                          \<and> calculate_status self e sch d = Inr st)
               (filter ?matched es) sts"
    by (rule calculate_user_status_matched [OF sts])
  then have "list_all2 (\<lambda>e st. enrollment st = Some e) (filter ?matched es) sts"
    by (rule list_all2_mono) (auto dest: calculate_status_fields(1))
  then have enr: "map enrollment sts = map Some (filter ?matched es)"
    by (induction rule: list_all2_induct) simp_all
  have "length sts = length (filter ?matched es)"
    using rel by (simp add: list_all2_lengthD)
  moreover have "length (filter ?matched es) + length (filter (\<lambda>e. \<not> ?matched e) es) = length es"
    by (rule sum_length_filter_compl)
  ultimately have len:
    "length sts + length (filter (\<lambda>e. schedules_map self (course_id e) = None) es) = length es"
    by simp
  from sts rel enr len show ?thesis by auto
qed

lemma calculate_user_status_mixed_raises:
  "calculate_user_status ex_service [ex_in_progress, ex_unscheduled, ex_completed_no_date] d
     = Inl AttributeError"
proof -
  have ids: "course_id ex_in_progress = ''C1''" "course_id ex_unscheduled = ''C9''"
    "course_id ex_completed_no_date = ''C1''"
    by (simp_all add: ex_in_progress_def ex_unscheduled_def ex_completed_no_date_def)
  have "is_completed ex_in_progress \<longrightarrow> completion_date ex_in_progress \<noteq> None"
    by (simp add: is_completed_def ex_in_progress_def)
  from calculate_status_returns [OF this]
  obtain st where st: "calculate_status ex_service ex_in_progress ex_schedule d = Inr st"
    by blast
  have last: "calculate_user_status ex_service [ex_completed_no_date] d = Inl AttributeError"
    by (rule calculate_user_status_no_date)
  have "calculate_user_status ex_service [ex_unscheduled, ex_completed_no_date] d
          = Inl AttributeError"
    using last by (simp add: calculate_user_status_Cons [of _ ex_unscheduled] ids ex_service_lookup)
  then show ?thesis
    using st by (simp add: calculate_user_status_Cons [of _ ex_in_progress] ids ex_service_lookup)
qed

text \<open>
  C4. Claimed: for every list of enrollments, \<^verbatim>\<open>calculate_user_status\<close> returns one
  status per enrollment whose course has a schedule, in order, and leaves the others out
  without raising. The enrollments without a schedule are indeed left out, but the
  method does not return for every list: an enrollment that has a schedule and is
  tagged Completed without a completion date makes \<^verbatim>\<open>calculate_status\<close> raise, and
  the loop has no handler. For the three enrollments below, two of them with a
  schedule, the result is \<^verbatim>\<open>AttributeError\<close> and not a list of two statuses.
\<close>

theorem calculate_user_status_raises:
  "schedules_map ex_service (course_id ex_in_progress) = Some ex_schedule
   \<and> schedules_map ex_service (course_id ex_unscheduled) = None
   \<and> schedules_map ex_service (course_id ex_completed_no_date) = Some ex_schedule
   \<and> calculate_user_status ex_service [ex_in_progress, ex_unscheduled, ex_completed_no_date]
        (mk_datetime 2025 1 4 0 0 0) = Inl AttributeError"
proof -
  have "schedules_map ex_service (course_id ex_in_progress) = Some ex_schedule"
    and "schedules_map ex_service (course_id ex_unscheduled) = None"
    and "schedules_map ex_service (course_id ex_completed_no_date) = Some ex_schedule"
    by (simp_all add: ex_service_lookup ex_in_progress_def ex_unscheduled_def
          ex_completed_no_date_def)
  then show ?thesis
    using calculate_user_status_mixed_raises [of "mk_datetime 2025 1 4 0 0 0"]
    by (intro conjI)
qed

text \<open>
  C6. In every summary that \<^verbatim>\<open>get_user_summary\<close> returns, \<open>on_track\<close> equals
  \<open>in_progress\<close>: each classified status tagged Progressed or Started has zero days
  overdue, so the two counters are incremented together, once per such status.
\<close>

theorem on_track_eq_in_progress:
  assumes "get_user_summary self es d = Inr s"
  shows "sum_on_track s = sum_in_progress s
       \<and> (\<exists>sts. calculate_user_status self es d = Inr sts
             \<and> (\<forall>st \<in> set sts. css_status st = S_PROGRESSED \<or> css_status st = S_STARTED
                   \<longrightarrow> days_overdue st = 0)
             \<and> sum_in_progress s
                 = int (length (filter (\<lambda>st. css_status st = S_PROGRESSED
                                               \<or> css_status st = S_STARTED) sts)))"
proof -
  from assms obtain sts where
    sts: "calculate_user_status self es d = Inr sts" and
    s: "s = fold summary_step sts
              \<lparr>sum_total_courses = int (length sts), sum_completed = 0,
               sum_in_progress = 0, sum_needs_reminder = 0, sum_on_track = 0\<rparr>"
    by (auto simp: get_user_summary_def split: sum.splits)
  have zero: "\<forall>st \<in> set sts. css_status st \<noteq> S_NEEDS_REMINDER \<longrightarrow> days_overdue st = 0"
    using calculate_user_status_days_overdue(2) [OF sts] by blast
  have "sum_on_track s = sum_in_progress s"
    unfolding s by (rule fold_summary_step_on_track [OF zero]) simp
  moreover have "sum_in_progress s
                 = int (length (filter (\<lambda>st. css_status st = S_PROGRESSED
                                               \<or> css_status st = S_STARTED) sts))"
    unfolding s by (simp add: fold_summary_step_in_progress)
  moreover have "\<forall>st \<in> set sts. css_status st = S_PROGRESSED \<or> css_status st = S_STARTED
                   \<longrightarrow> days_overdue st = 0"
    using zero by auto
  ultimately show ?thesis using sts by blast
qed

theorem on_track_eq_in_progress_witness:
  "get_user_summary ex_service [ex_in_progress, ex_unscheduled, ex_completed]
     (mk_datetime 2025 1 3 0 0 0)
     = Inr \<lparr>sum_total_courses = 2, sum_completed = 1, sum_in_progress = 1,
            sum_needs_reminder = 0, sum_on_track = 1\<rparr>
   \<and> sum_on_track \<lparr>sum_total_courses = 2, sum_completed = 1, sum_in_progress = 1,
                    sum_needs_reminder = 0, sum_on_track = 1\<rparr>
       = sum_in_progress \<lparr>sum_total_courses = 2, sum_completed = 1, sum_in_progress = 1,
                          sum_needs_reminder = 0, sum_on_track = 1\<rparr>"
proof -
  have h: "get_user_summary ex_service [ex_in_progress, ex_unscheduled, ex_completed]
     (mk_datetime 2025 1 3 0 0 0)
     = Inr \<lparr>sum_total_courses = 2, sum_completed = 1, sum_in_progress = 1,
            sum_needs_reminder = 0, sum_on_track = 1\<rparr>"
    by code_simp
  from on_track_eq_in_progress [OF h] h show ?thesis by blast
qed

subsection \<open>The composer\<close>

text \<open>
  C8. \<^verbatim>\<open>get_template\<close> gives each of the four status tags its own template class,
  built for the given user, and gives the NeedsReminder template for any argument
  that is not one of the four tags; it has no failing case.
\<close>

theorem get_template_selection:
  "get_template (Member S_NEEDS_REMINDER) u = NeedsReminderTemplate u
   \<and> get_template (Member S_PROGRESSED) u = ProgressedTemplate u
   \<and> get_template (Member S_STARTED) u = StartedTemplate u
   \<and> get_template (Member S_COMPLETED) u = CompletedTemplate u
   \<and> get_template (Foreign x) u = NeedsReminderTemplate u"
  by (simp add: get_template_def template_map_def)

subsection \<open>The log and the batch job\<close>

text \<open>Sending only ever adds records at the end of \<open>sent_emails\<close>, one per email.\<close>

lemma send_user_reminder_appends:
  assumes "send_user_reminder es now user courses st = (sent, es')"
  shows "\<exists>new. sent_emails es' = sent_emails es @ new
           \<and> int (length new) = (if sent then 1 else 0)"
proof (cases "courses = []")
  case True
  with assms show ?thesis by (simp add: send_user_reminder_def)
next
  case False
  with assms have "\<exists>r. sent_emails es' = sent_emails es @ [r]" and "sent"
    by (auto simp: send_user_reminder_def Let_def log_email_def)
  then show ?thesis by auto
qed

lemma send_manager_summary_appends:
  assumes "send_manager_summary es now manager summaries = (sent, es')"
  shows "\<exists>new. sent_emails es' = sent_emails es @ new
           \<and> int (length new) = (if sent then 1 else 0)"
proof (cases "summaries = []")
  case True
  with assms show ?thesis by (simp add: send_manager_summary_def)
next
  case False
  with assms have "\<exists>r. sent_emails es' = sent_emails es @ [r]" and "sent"
    by (auto simp: send_manager_summary_def Let_def log_email_def)
  then show ?thesis by auto
qed

lemma send_reminders_appends:
  assumes "send_reminders clock xs es n = (es', n')"
  shows "\<exists>new. sent_emails es' = sent_emails es @ new \<and> n' = n + int (length new)"
  using assms
proof (induction xs arbitrary: es n)
  case Nil
  then show ?case by simp
next
  case (Cons x xs)
  obtain user courses where x: "x = (user, courses)"
    by (cases x)
  obtain sent es1 where
    one: "send_user_reminder es (clock (length (sent_emails es))) user courses S_NEEDS_REMINDER
            = (sent, es1)"
    by (cases "send_user_reminder es (clock (length (sent_emails es))) user courses
                 S_NEEDS_REMINDER")
  from send_user_reminder_appends [OF one]
  obtain new1 where new1: "sent_emails es1 = sent_emails es @ new1"
    "int (length new1) = (if sent then 1 else 0)"
    by blast
  from Cons.prems x one
  have "send_reminders clock xs es1 (if sent then n + 1 else n) = (es', n')"
    by simp
  from Cons.IH [OF this]
  obtain new2 where new2: "sent_emails es' = sent_emails es1 @ new2"
    "n' = (if sent then n + 1 else n) + int (length new2)"
    by blast
  have "sent_emails es' = sent_emails es @ (new1 @ new2)"
    using new1(1) new2(1) by simp
  moreover have "n' = n + int (length (new1 @ new2))"
    using new1(2) new2(2) by (simp split: if_splits)
  ultimately show ?case by blast
qed

lemma send_summaries_appends:
  assumes "send_summaries clock xs es n = (es', n')"
  shows "\<exists>new. sent_emails es' = sent_emails es @ new \<and> n' = n + int (length new)"
  using assms
proof (induction xs arbitrary: es n)
  case Nil
  then show ?case by simp
next
  case (Cons x xs)
  obtain manager summaries where x: "x = (manager, summaries)"
    by (cases x)
  obtain sent es1 where
    one: "send_manager_summary es (clock (length (sent_emails es))) manager summaries
            = (sent, es1)"
    by (cases "send_manager_summary es (clock (length (sent_emails es))) manager summaries")
  from send_manager_summary_appends [OF one]
  obtain new1 where new1: "sent_emails es1 = sent_emails es @ new1"
    "int (length new1) = (if sent then 1 else 0)"
    by blast
  from Cons.prems x one
  have "send_summaries clock xs es1 (if sent then n + 1 else n) = (es', n')"
    by simp
  from Cons.IH [OF this]
  obtain new2 where new2: "sent_emails es' = sent_emails es1 @ new2"
    "n' = (if sent then n + 1 else n) + int (length new2)"
    by blast
  have "sent_emails es' = sent_emails es @ (new1 @ new2)"
    using new1(1) new2(1) by simp
  moreover have "n' = n + int (length (new1 @ new2))"
    using new1(2) new2(2) by (simp split: if_splits)
  ultimately show ?case by blast
qed

text \<open>What \<^verbatim>\<open>save_email_log\<close> leaves in the file, case by case.\<close>

lemma save_email_log_written:
  assumes "on_write f = WriteSucceeds"
    and "content f = JsonList old \<or> ((content f = Missing \<or> content f = Malformed) \<and> old = [])"
  shows "content (save_email_log self f) = JsonList (old @ sent_emails self)"
  using assms
  by (auto simp: save_email_log_def json_load_def py_extend_def json_dump_def)

lemma save_email_log_not_array:
  assumes "content f = JsonOther"
  shows "save_email_log self f = f"
  using assms by (simp add: save_email_log_def json_load_def py_extend_def)

lemma save_email_log_open_fails:
  assumes "on_write f = OpenFails"
  shows "save_email_log self f = f"
  using assms
  by (cases "content f")
    (simp_all add: save_email_log_def json_load_def py_extend_def json_dump_def)

text \<open>The parts of a run of \<^verbatim>\<open>process_reminders\<close> that returns.\<close>

lemma process_reminders_InrD:
  assumes "process_reminders job date_arg clock f = Inr (stats, job', f')"
  shows "\<exists>un ms es1 n1 es2 n2.
           send_reminders clock un (email_service job) 0 = (es1, n1)
           \<and> send_summaries clock ms es1 0 = (es2, n2)
           \<and> job' = job\<lparr>email_service := es2\<rparr>
           \<and> f' = save_email_log es2 f
           \<and> total_emails_sent stats = n1 + n2"
proof -
  define cd where
    "cd = (case date_arg of
             None \<Rightarrow> clock (length (sent_emails (email_service job)))
           | Some d \<Rightarrow> d)"
  from assms obtain un ms where
    pu: "process_users (status_service job) (enrollments_by_user job) cd (users job) [] []
           = Inr (un, ms)"
    by (auto simp: process_reminders_def Let_def cd_def split: sum.splits)
  obtain es1 n1 where r: "send_reminders clock un (email_service job) 0 = (es1, n1)"
    by (cases "send_reminders clock un (email_service job) 0")
  obtain es2 n2 where m: "send_summaries clock ms es1 0 = (es2, n2)"
    by (cases "send_summaries clock ms es1 0")
  from assms pu r m
  have "job' = job\<lparr>email_service := es2\<rparr>" and "f' = save_email_log es2 f"
    and "total_emails_sent stats = n1 + n2"
    by (auto simp: process_reminders_def Let_def cd_def)
  with r m show ?thesis by blast
qed

text \<open>
  C9. The claim, for every state of the log, is refuted below. What holds: when the log
  file is missing, is not valid JSON or holds a JSON array, and writing it succeeds,
  then after a run of a job whose email service had sent nothing before, the file holds
  the records of the array (none for a missing or invalid file), unchanged and in the
  same order, followed by the records composed during the run, as many as the
  statistics count as sent.
\<close>

theorem run_appends_to_log:
  assumes "process_reminders job date_arg clock f = Inr (stats, job', f')"
    and "sent_emails (email_service job) = []"
    and "on_write f = WriteSucceeds"
    and "content f = JsonList old \<or> ((content f = Missing \<or> content f = Malformed) \<and> old = [])"
  shows "content f' = JsonList (old @ sent_emails (email_service job'))
       \<and> int (length (sent_emails (email_service job'))) = total_emails_sent stats"
proof -
  from process_reminders_InrD [OF assms(1)]
  obtain un ms es1 n1 es2 n2 where
    r: "send_reminders clock un (email_service job) 0 = (es1, n1)" and
    m: "send_summaries clock ms es1 0 = (es2, n2)" and
    job': "job' = job\<lparr>email_service := es2\<rparr>" and
    f': "f' = save_email_log es2 f" and
    total: "total_emails_sent stats = n1 + n2"
    by blast
  from send_reminders_appends [OF r] assms(2)
  obtain new1 where new1: "sent_emails es1 = new1" "n1 = int (length new1)"
    by auto
  from send_summaries_appends [OF m]
  obtain new2 where new2: "sent_emails es2 = sent_emails es1 @ new2" "n2 = int (length new2)"
    by auto
  have "int (length (sent_emails es2)) = n1 + n2"
    using new1 new2 by simp
  moreover have "content f' = JsonList (old @ sent_emails es2)"
    unfolding f' by (rule save_email_log_written [OF assms(3) assms(4)])
  ultimately show ?thesis
    using job' total by simp
qed

theorem run_appends_to_log_witness:
  "sent_emails (email_service (load_data new_job ex_files_rest)) = []
   \<and> on_write ex_log = WriteSucceeds
   \<and> content ex_log = JsonList [ex_old_record]
   \<and> (\<exists>stats job' f'.
         process_reminders (load_data new_job ex_files_rest) (Some (mk_datetime 2025 1 10 0 0 0))
           ex_clock ex_log = Inr (stats, job', f')
         \<and> content f' = JsonList ([ex_old_record] @ sent_emails (email_service job'))
         \<and> int (length (sent_emails (email_service job'))) = total_emails_sent stats
         \<and> total_emails_sent stats = 2
         \<and> map em_to (sent_emails (email_service job'))
             = [''bob@example.com'', ''boss@example.com''])"
proof -
  define res where
    "res = process_reminders (load_data new_job ex_files_rest)
             (Some (mk_datetime 2025 1 10 0 0 0)) ex_clock ex_log"
  have fresh: "sent_emails (email_service (load_data new_job ex_files_rest)) = []"
    by (simp add: load_data_def new_job_def new_email_service_def)
  have w: "on_write ex_log = WriteSucceeds"
    by (simp add: ex_log_def)
  have c: "content ex_log = JsonList [ex_old_record]"
    by (simp add: ex_log_def)
  then have c': "content ex_log = JsonList [ex_old_record]
                   \<or> ((content ex_log = Missing \<or> content ex_log = Malformed)
                        \<and> [ex_old_record] = [])"
    by (rule disjI1)
  have "map_sum id
          (\<lambda>r. (total_emails_sent (fst r), map em_to (sent_emails (email_service (fst (snd r))))))
          (process_reminders (load_data new_job ex_files_rest)
             (Some (mk_datetime 2025 1 10 0 0 0)) ex_clock ex_log)
        = Inr (2, [''bob@example.com'', ''boss@example.com''])"
    by code_simp
  then have "map_sum id
          (\<lambda>r. (total_emails_sent (fst r), map em_to (sent_emails (email_service (fst (snd r))))))
          res
        = Inr (2, [''bob@example.com'', ''boss@example.com''])"
    unfolding res_def .
  then obtain r where r: "res = Inr r" and two: "total_emails_sent (fst r) = 2"
    and tos: "map em_to (sent_emails (email_service (fst (snd r))))
                = [''bob@example.com'', ''boss@example.com'']"
    by (cases res) auto
  obtain stats job' f' where parts: "r = (stats, job', f')"
    by (cases r)
  from r parts have run:
    "process_reminders (load_data new_job ex_files_rest)
       (Some (mk_datetime 2025 1 10 0 0 0)) ex_clock ex_log = Inr (stats, job', f')"
    unfolding res_def by simp
  from two parts have two': "total_emails_sent stats = 2"
    by simp
  from tos parts have tos':
    "map em_to (sent_emails (email_service job')) = [''bob@example.com'', ''boss@example.com'']"
    by simp
  from run_appends_to_log [OF run fresh w c']
  have "content f' = JsonList ([ex_old_record] @ sent_emails (email_service job'))"
    and "int (length (sent_emails (email_service job'))) = total_emails_sent stats"
    by blast+
  with run two' tos' have
    "\<exists>stats job' f'.
         process_reminders (load_data new_job ex_files_rest) (Some (mk_datetime 2025 1 10 0 0 0))
           ex_clock ex_log = Inr (stats, job', f')
         \<and> content f' = JsonList ([ex_old_record] @ sent_emails (email_service job'))
         \<and> int (length (sent_emails (email_service job'))) = total_emails_sent stats
         \<and> total_emails_sent stats = 2
         \<and> map em_to (sent_emails (email_service job'))
             = [''bob@example.com'', ''boss@example.com'']"
    by (intro exI conjI)
  with fresh w c show ?thesis
    by (intro conjI)
qed

text \<open>
  Where C9 as claimed fails, for a service holding one record to save: a log holding
  JSON that is not an array is left as it is, and so is a log that cannot be opened for
  writing, so the record of the run is not saved; a write that fails after the file was
  opened destroys the record that was there; and a service that saves twice writes its
  record twice.
\<close>

theorem save_email_log_counterexample:
  "sent_emails ex_sender = [ex_new_record]
   \<and> content (save_email_log ex_sender \<lparr>content = JsonOther, on_write = WriteSucceeds\<rparr>)
     = JsonOther
   \<and> content (save_email_log ex_sender \<lparr>content = JsonList [ex_old_record], on_write = OpenFails\<rparr>)
       = JsonList [ex_old_record]
   \<and> content (save_email_log ex_sender \<lparr>content = JsonList [ex_old_record], on_write = DumpFails\<rparr>)
       = Malformed
   \<and> content (save_email_log ex_sender (save_email_log ex_sender ex_log))
       = JsonList [ex_old_record, ex_new_record, ex_new_record]"
  by (simp add: save_email_log_def json_load_def py_extend_def json_dump_def
        ex_sender_def ex_log_def)

text \<open>
  C2. Claimed: when classifying one user's enrollments raises, the job goes on with
  the other users and reports the failure in the statistics it returns. The loop of
  \<^verbatim>\<open>process_reminders\<close> has no handler and \<^verbatim>\<open>run\<close> raises again what it
  catches: with a first user whose enrollment is tagged Completed without a completion
  date, both end in \<^verbatim>\<open>AttributeError\<close> and return no statistics, although the
  second user alone is processed without error and needs a reminder.
\<close>

theorem run_aborts_on_user_failure:
  "process_reminders (load_data new_job ex_files) (Some (mk_datetime 2025 1 10 0 0 0))
      ex_clock ex_store = Inl AttributeError
   \<and> run new_job (Inr ex_files) (Some (mk_datetime 2025 1 10 0 0 0)) ex_clock ex_store
       = Inl AttributeError
   \<and> map_sum id fst
        (run new_job (Inr ex_files_rest) (Some (mk_datetime 2025 1 10 0 0 0)) ex_clock ex_store)
       = Inr \<lparr>execution_date = mk_datetime 2025 1 10 0 0 0, users_processed = 2,
              users_needing_reminders = 1, reminder_emails_sent = 1,
              manager_summaries_sent = 1, total_emails_sent = 2\<rparr>"
proof -
  have loop:
    "process_users (Some ex_service) [''u1'' \<mapsto> [ex_completed_no_date], ''u2'' \<mapsto> [ex_in_progress]]
       (mk_datetime 2025 1 10 0 0 0) [alice, bob] [] [] = Inl AttributeError"
    by (rule process_users_propagates [OF _ _ calculate_user_status_no_date])
      (simp_all add: alice_def)
  have first:
    "process_reminders (load_data new_job ex_files) (Some (mk_datetime 2025 1 10 0 0 0))
       ex_clock ex_store = Inl AttributeError"
    using loop
    by (simp add: process_reminders_def load_data_def new_job_def ex_files_def ex_service_def)
  then have second:
    "run new_job (Inr ex_files) (Some (mk_datetime 2025 1 10 0 0 0)) ex_clock ex_store
       = Inl AttributeError"
    by (simp add: run_def)
  have third:
    "map_sum id fst
        (run new_job (Inr ex_files_rest) (Some (mk_datetime 2025 1 10 0 0 0)) ex_clock ex_store)
       = Inr \<lparr>execution_date = mk_datetime 2025 1 10 0 0 0, users_processed = 2,
              users_needing_reminders = 1, reminder_emails_sent = 1,
              manager_summaries_sent = 1, total_emails_sent = 2\<rparr>"
    by code_simp
  from first second third show ?thesis by blast
qed

end
